theory Spec2Isabelle
  imports Main "HOL-Library.Sublist"
begin

section \<open>The relational store\<close>

text \<open>
  The views of \<^verbatim>\<open>core/views.py\<close> work on three tables: tasks, workers and the
  many-to-many table that links a task to its assignees. A primary key is a Python
  integer; a date is its proleptic Gregorian ordinal, so that \<open><\<close> on dates is \<open><\<close>
  on integers.
\<close>

type_synonym pk = int
type_synonym date = int

text \<open>
  Modelled from the spec: \<^verbatim>\<open>core/models.py\<close> is not among the sources. The fields are
  those of the data model of the specification (Task: name, description, deadline,
  priority, completion flag, task type, project, assignees; Worker: first and last
  name, position, project) and those the views and the admin read
  (\<^verbatim>\<open>is_completed\<close>, \<^verbatim>\<open>deadline\<close>, \<^verbatim>\<open>priority\<close>, \<^verbatim>\<open>project\<close>, \<^verbatim>\<open>first_name\<close>,
  \<^verbatim>\<open>last_name\<close>, \<^verbatim>\<open>position\<close>, \<^verbatim>\<open>task_type\<close>).
\<close>

record task =
  task_pk :: pk
  task_name :: string
  description :: string
  deadline :: date
  priority :: string
  is_completed :: bool
  task_type_id :: pk
  task_project_id :: pk

record worker =
  worker_pk :: pk
  first_name :: string
  last_name :: string
  position_id :: pk
  worker_project_id :: pk

text \<open>
  \<open>task_assignees\<close> is the through table of \<^verbatim>\<open>Task.assignees\<close>: a row \<open>(t, w)\<close> says
  that the worker with key \<open>w\<close> is assigned to the task with key \<open>t\<close>.
\<close>

record db =
  task_table :: "task list"
  worker_table :: "worker list"
  task_assignees :: "(pk \<times> pk) list"

text \<open>The primary-key constraint of the two tables.\<close>

definition pk_unique :: "db \<Rightarrow> bool" where
  "pk_unique d \<longleftrightarrow> distinct (map task_pk (task_table d)) \<and> distinct (map worker_pk (worker_table d))"

section \<open>Requests, responses and exceptions\<close>

datatype http_method = GET | POST

text \<open>
  \<open>req_user\<close> is \<^verbatim>\<open>request.user\<close>: \<open>None\<close> is the anonymous user, \<open>Some w\<close> the worker
  row of the session. \<open>absolute_uri\<close> is what \<^verbatim>\<open>request.build_absolute_uri()\<close> returns,
  \<open>GET_filters\<close> is \<^verbatim>\<open>request.GET.getlist("filters")\<close> and \<open>GET_name\<close> is
  \<^verbatim>\<open>request.GET.get("name")\<close>.
\<close>

record request =
  req_method :: http_method
  req_user :: "worker option"
  absolute_uri :: string
  GET_filters :: "string list"
  GET_name :: "string option"

text \<open>
  A URL is kept symbolic, since the routing table is not among the sources:
  \<open>Reverse n args\<close> is \<^verbatim>\<open>reverse(n, args=args)\<close> and \<open>LoginUrl\<close> the login page.
\<close>

datatype url = Reverse string "pk list" | LoginUrl

text \<open>
  \<open>HttpResponse body status\<close> is a plain response, \<open>HttpResponseRedirect\<close> the redirect
  class of the framework and \<open>TemplateResponse\<close> a rendered page, named by its template.
\<close>

datatype response =
    HttpResponse string nat
  | HttpResponseRedirect url
  | TemplateResponse string

fun status_code :: "response \<Rightarrow> nat" where
  "status_code (HttpResponse body status) = status"
| "status_code (HttpResponseRedirect u) = 302"
| "status_code (TemplateResponse t) = 200"

datatype exn =
    DoesNotExist | MultipleObjectsReturned | Http404 | IndexError | ValueError | AttributeError

section \<open>Queries of the object-relational mapper\<close>

text \<open>
  \<^verbatim>\<open>Task.objects.get(pk=pk)\<close>: the one row with that key; no row raises
  \<^verbatim>\<open>DoesNotExist\<close>, several raise \<^verbatim>\<open>MultipleObjectsReturned\<close>.
\<close>

definition Task_objects_get :: "db \<Rightarrow> pk \<Rightarrow> exn + task" where
  "Task_objects_get d k =
     (case filter (\<lambda>t. task_pk t = k) (task_table d) of
        [] \<Rightarrow> Inl DoesNotExist
      | [t] \<Rightarrow> Inr t
      | _ \<Rightarrow> Inl MultipleObjectsReturned)"

text \<open>\<^verbatim>\<open>task.assignees.all()\<close>: the workers joined to the task by the through table.\<close>

definition assignees_all :: "db \<Rightarrow> task \<Rightarrow> worker list" where
  "assignees_all d t =
     filter (\<lambda>w. (task_pk t, worker_pk w) \<in> set (task_assignees d)) (worker_table d)"

text \<open>
  \<^verbatim>\<open>request.user in queryset\<close>: Python iterates the rows and compares with \<^verbatim>\<open>==\<close>, which
  on model instances is equality of primary keys; the anonymous user equals no row.
\<close>

definition user_in :: "worker option \<Rightarrow> worker list \<Rightarrow> bool" where
  "user_in u ws =
     (case u of None \<Rightarrow> False | Some w \<Rightarrow> worker_pk w \<in> set (map worker_pk ws))"

text \<open>
  \<^verbatim>\<open>task.save()\<close>: an UPDATE of the rows with the task's key and, when there is none,
  an INSERT. The through table is not written.
\<close>

definition task_save :: "task \<Rightarrow> db \<Rightarrow> db" where
  "task_save t d =
     d\<lparr>task_table :=
        (if task_pk t \<in> set (map task_pk (task_table d))
         then map (\<lambda>r. if task_pk r = task_pk t then t else r) (task_table d)
         else task_table d @ [t])\<rparr>"

section \<open>The completion toggle\<close>

text \<open>
  \<^verbatim>\<open>toggle_completed(request, pk)\<close>. The result is what the call raises or returns,
  together with the store it leaves.
\<close>

definition toggle_completed :: "request \<Rightarrow> pk \<Rightarrow> db \<Rightarrow> (exn + response) \<times> db" where
  "toggle_completed request k d =
     (case Task_objects_get d k of
        Inl e \<Rightarrow> (Inl e, d)
      | Inr task \<Rightarrow>
          if user_in (req_user request) (assignees_all d task)
          then (Inr (HttpResponseRedirect (Reverse ''core:task-detail'' [k])),
                task_save (task\<lparr>is_completed := \<not> is_completed task\<rparr>) d)
          else (Inr (HttpResponse ''Unauthorized'' 405), d))"

section \<open>The task listing\<close>

text \<open>
  \<^verbatim>\<open>str.split(sep)\<close> for a separator of one character: the pieces between the
  separators, empty pieces included, so that the empty string gives one empty piece.
\<close>

fun split :: "char \<Rightarrow> string \<Rightarrow> string list" where
  "split sep [] = [[]]"
| "split sep (c # cs) =
     (if c = sep then [] # split sep cs
      else (case split sep cs of
              [] \<Rightarrow> [[c]]
            | piece # pieces \<Rightarrow> (c # piece) # pieces))"

text \<open>
  \<^verbatim>\<open>request.build_absolute_uri().split("/")[4]\<close>: the fifth piece of the address, and
  \<^verbatim>\<open>IndexError\<close> when there are fewer than five.
\<close>

definition uri_project_id :: "request \<Rightarrow> exn + string" where
  "uri_project_id request =
     (case drop 4 (split (CHR ''/'') (absolute_uri request)) of
        [] \<Rightarrow> Inl IndexError
      | piece # _ \<Rightarrow> Inr piece)"

text \<open>
  The mapper turns the text given for \<^verbatim>\<open>project_id\<close> into a key with Python's
  \<^verbatim>\<open>int\<close>: an optional sign, then decimal digits, where single underscores may stand
  between digits. Anything else raises \<^verbatim>\<open>ValueError\<close>. (White space and digits beyond
  ASCII, which \<^verbatim>\<open>int\<close> takes too, are percent-encoded in an address and so never
  reach it as such.)
\<close>

definition digit_of :: "char \<Rightarrow> nat option" where
  "digit_of c =
     (let n = (of_char c :: nat) in if 48 \<le> n \<and> n \<le> 57 then Some (n - 48) else None)"

fun digits_value :: "nat \<Rightarrow> bool \<Rightarrow> string \<Rightarrow> nat option" where
  "digits_value acc after_digit [] = (if after_digit then Some acc else None)"
| "digits_value acc after_digit (c # cs) =
     (if c = CHR ''_''
      then (if after_digit \<and> cs \<noteq> [] then digits_value acc False cs else None)
      else (case digit_of c of
              None \<Rightarrow> None
            | Some v \<Rightarrow> digits_value (10 * acc + v) True cs))"

definition py_int :: "string \<Rightarrow> int option" where
  "py_int s =
     (case s of
        [] \<Rightarrow> None
      | c # cs \<Rightarrow>
          if c = CHR ''-'' then map_option (\<lambda>n. - int n) (digits_value 0 False cs)
          else if c = CHR ''+'' then map_option int (digits_value 0 False cs)
          else map_option int (digits_value 0 False s))"

text \<open>
  \<^verbatim>\<open>TaskListView.get_queryset\<close>, with \<^verbatim>\<open>date.today()\<close> as the argument \<open>today\<close>. A
  queryset is the list of its rows in table order.
\<close>

definition TaskListView_get_queryset :: "request \<Rightarrow> date \<Rightarrow> db \<Rightarrow> exn + task list" where
  "TaskListView_get_queryset request today d =
     (case uri_project_id request of
        Inl e \<Rightarrow> Inl e
      | Inr project_id \<Rightarrow>
          (case py_int project_id of
             None \<Rightarrow> Inl ValueError
           | Some p \<Rightarrow>
               (let queryset = filter (\<lambda>t. task_project_id t = p) (task_table d);
                    filters = GET_filters request;
                    queryset = (if ''past_dl'' \<in> set filters
                                then filter (\<lambda>t. deadline t < today) queryset
                                else queryset);
                    queryset = (if ''urgent'' \<in> set filters
                                then filter (\<lambda>t. priority t = ''Urgent'') queryset
                                else queryset);
                    queryset = (if ''done'' \<in> set filters
                                then filter (\<lambda>t. is_completed t = True) queryset
                                else filter (\<lambda>t. is_completed t = False) queryset)
                in Inr queryset)))"

section \<open>The worker listing\<close>

text \<open>
  \<^verbatim>\<open>field__icontains=value\<close>: the value occurs in the field as a run of consecutive
  characters, letters compared without regard to case (the case folding of ASCII).
\<close>

definition lower :: "char \<Rightarrow> char" where
  "lower c =
     (let n = (of_char c :: nat) in if 65 \<le> n \<and> n \<le> 90 then char_of (n + 32) else c)"

fun startswith :: "string \<Rightarrow> string \<Rightarrow> bool" where
  "startswith s [] = True"
| "startswith [] (p # ps) = False"
| "startswith (c # cs) (p # ps) = (c = p \<and> startswith cs ps)"

fun contains :: "string \<Rightarrow> string \<Rightarrow> bool" where
  "contains [] v = (v = [])"
| "contains (c # cs) v = (startswith (c # cs) v \<or> contains cs v)"

definition icontains :: "string \<Rightarrow> string \<Rightarrow> bool" where
  "icontains field v = contains (map lower field) (map lower v)"

text \<open>
  \<^verbatim>\<open>WorkerListView.get_queryset\<close>. \<^verbatim>\<open>if name:\<close> holds for a string that is present
  and not empty.
\<close>

definition WorkerListView_get_queryset :: "request \<Rightarrow> db \<Rightarrow> worker list" where
  "WorkerListView_get_queryset request d =
     (let name = GET_name request;
          queryset = worker_table d
      in (case name of
            None \<Rightarrow> queryset
          | Some n \<Rightarrow>
              if n \<noteq> []
              then filter (\<lambda>w. icontains (first_name w) n \<or> icontains (last_name w) n) queryset
              else queryset))"

text \<open>
  The entry \<^verbatim>\<open>num_workers\<close> that \<^verbatim>\<open>WorkerListView.get_context_data\<close> adds to the
  context: \<^verbatim>\<open>get_user_model().objects.count()\<close>.
\<close>

definition num_workers :: "request \<Rightarrow> db \<Rightarrow> nat" where
  "num_workers request d = length (worker_table d)"

section \<open>Updating and deleting a task\<close>

text \<open>
  \<^verbatim>\<open>get_object()\<close> of the generic views: the row with the key of the address, and
  \<^verbatim>\<open>Http404\<close> when there is none.
\<close>

definition get_object :: "db \<Rightarrow> pk \<Rightarrow> exn + task" where
  "get_object d k =
     (case Task_objects_get d k of
        Inl e \<Rightarrow> Inl (if e = DoesNotExist then Http404 else e)
      | Inr obj \<Rightarrow> Inr obj)"

text \<open>
  \<^verbatim>\<open>request.user.project\<close>; the anonymous user has no such attribute. Two projects are
  equal when their keys are.
\<close>

definition user_project :: "request \<Rightarrow> exn + pk" where
  "user_project request =
     (case req_user request of
        None \<Rightarrow> Inl AttributeError
      | Some w \<Rightarrow> Inr (worker_project_id w))"

text \<open>
  \<^verbatim>\<open>TaskUpdateView.get\<close> and \<^verbatim>\<open>TaskDeleteView.get\<close>. The call of \<^verbatim>\<open>super().get\<close>
  renders the form, or the page that asks to confirm the deletion, and writes nothing.
\<close>

definition TaskUpdateView_get :: "request \<Rightarrow> pk \<Rightarrow> db \<Rightarrow> (exn + response) \<times> db" where
  "TaskUpdateView_get request k d =
     (case get_object d k of
        Inl e \<Rightarrow> (Inl e, d)
      | Inr obj \<Rightarrow>
          (case user_project request of
             Inl e \<Rightarrow> (Inl e, d)
           | Inr p \<Rightarrow>
               if task_project_id obj \<noteq> p
               then (Inr (HttpResponse ''Unauthorized'' 405), d)
               else (Inr (TemplateResponse ''core/task_form.html''), d)))"

definition TaskDeleteView_get :: "request \<Rightarrow> pk \<Rightarrow> db \<Rightarrow> (exn + response) \<times> db" where
  "TaskDeleteView_get request k d =
     (case get_object d k of
        Inl e \<Rightarrow> (Inl e, d)
      | Inr obj \<Rightarrow>
          (case user_project request of
             Inl e \<Rightarrow> (Inl e, d)
           | Inr p \<Rightarrow>
               if task_project_id obj \<noteq> p
               then (Inr (HttpResponse ''Unauthorized'' 405), d)
               else (Inr (TemplateResponse ''core/task_confirm_delete.html''), d)))"

text \<open>
  \<^verbatim>\<open>obj.delete()\<close>: the row goes, and with it the rows of the through table that
  name it.
\<close>

definition task_delete :: "task \<Rightarrow> db \<Rightarrow> db" where
  "task_delete obj d =
     d\<lparr>task_table := filter (\<lambda>t. task_pk t \<noteq> task_pk obj) (task_table d),
       task_assignees := filter (\<lambda>(t, w). t \<noteq> task_pk obj) (task_assignees d)\<rparr>"

text \<open>
  \<^verbatim>\<open>TaskDeleteView\<close> does not define \<^verbatim>\<open>post\<close>, so a POST request runs the one of
  the generic \<^verbatim>\<open>DeleteView\<close>: it loads the object, takes the address of
  \<^verbatim>\<open>TaskDeleteView.get_success_url\<close>, deletes the object and redirects there.
\<close>

definition TaskDeleteView_post :: "request \<Rightarrow> pk \<Rightarrow> db \<Rightarrow> (exn + response) \<times> db" where
  "TaskDeleteView_post request k d =
     (case get_object d k of
        Inl e \<Rightarrow> (Inl e, d)
      | Inr obj \<Rightarrow>
          (Inr (HttpResponseRedirect (Reverse ''core:task-list'' [task_project_id obj])),
           task_delete obj d))"

text \<open>
  A request to the view: \<^verbatim>\<open>LoginRequiredMixin\<close> sends the anonymous user to the login
  page, and the generic \<^verbatim>\<open>View.dispatch\<close> calls the method named by the HTTP method.
\<close>

definition TaskDeleteView_dispatch :: "request \<Rightarrow> pk \<Rightarrow> db \<Rightarrow> (exn + response) \<times> db" where
  "TaskDeleteView_dispatch request k d =
     (case req_user request of
        None \<Rightarrow> (Inr (HttpResponseRedirect LoginUrl), d)
      | Some w \<Rightarrow>
          (case req_method request of
             GET \<Rightarrow> TaskDeleteView_get request k d
           | POST \<Rightarrow> TaskDeleteView_post request k d))"

section \<open>Example data\<close>

text \<open>
  A small store: project 1 has the tasks \<open>task_T1\<close> (not done, urgent, due the day
  before \<open>today0\<close>) and \<open>task_T2\<close> (done), project 2 has \<open>task_T3\<close>. Ana Smith and
  Juliana Ruiz work in project 1, Bob Lee in project 2.
\<close>

definition today0 :: date where
  "today0 = 739926"

definition task_T1 :: task where
  "task_T1 = \<lparr>task_pk = 1, task_name = ''T1'', description = [], deadline = 739925,
     priority = ''Urgent'', is_completed = False, task_type_id = 1, task_project_id = 1\<rparr>"

definition task_T2 :: task where
  "task_T2 = \<lparr>task_pk = 2, task_name = ''T2'', description = [], deadline = 739930,
     priority = ''Low'', is_completed = True, task_type_id = 1, task_project_id = 1\<rparr>"

definition task_T3 :: task where
  "task_T3 = \<lparr>task_pk = 3, task_name = ''T3'', description = [], deadline = 739930,
     priority = ''Urgent'', is_completed = False, task_type_id = 2, task_project_id = 2\<rparr>"

definition ana_smith :: worker where
  "ana_smith = \<lparr>worker_pk = 1, first_name = ''Ana'', last_name = ''Smith'',
     position_id = 1, worker_project_id = 1\<rparr>"

definition juliana_ruiz :: worker where
  "juliana_ruiz = \<lparr>worker_pk = 2, first_name = ''Juliana'', last_name = ''Ruiz'',
     position_id = 1, worker_project_id = 1\<rparr>"

definition bob_lee :: worker where
  "bob_lee = \<lparr>worker_pk = 3, first_name = ''Bob'', last_name = ''Lee'',
     position_id = 2, worker_project_id = 2\<rparr>"

definition store0 :: db where
  "store0 = \<lparr>task_table = [task_T1, task_T2, task_T3],
     worker_table = [ana_smith, juliana_ruiz, bob_lee],
     task_assignees = [(1, 1), (2, 2), (3, 3)]\<rparr>"

text \<open>
  \<open>request0 m u uri fs n\<close> is a request with method \<open>m\<close> by the user \<open>u\<close> for the
  address \<open>uri\<close>, with the query values \<open>fs\<close> for \<^verbatim>\<open>filters\<close> and \<open>n\<close> for \<^verbatim>\<open>name\<close>.
\<close>

definition request0 ::
  "http_method \<Rightarrow> worker option \<Rightarrow> string \<Rightarrow> string list \<Rightarrow> string option \<Rightarrow> request" where
  "request0 m u uri fs n =
     \<lparr>req_method = m, req_user = u, absolute_uri = uri, GET_filters = fs, GET_name = n\<rparr>"

section \<open>Facts about lookups and saving\<close>

lemma Task_objects_get_pk: "Task_objects_get d k = Inr t \<Longrightarrow> task_pk t = k"
proof -
  assume a: "Task_objects_get d k = Inr t"
  then have "filter (\<lambda>t. task_pk t = k) (task_table d) = [t]"
    by (auto simp: Task_objects_get_def split: list.splits)
  then have "t \<in> set (filter (\<lambda>t. task_pk t = k) (task_table d))"
    by simp
  then show ?thesis by simp
qed

lemma Task_objects_get_rows:
  "Task_objects_get d k = Inr t \<longleftrightarrow> filter (\<lambda>t. task_pk t = k) (task_table d) = [t]"
  by (auto simp: Task_objects_get_def split: list.splits)

lemma Task_objects_get_mem: "Task_objects_get d k = Inr t \<Longrightarrow> t \<in> set (task_table d)"
proof -
  assume "Task_objects_get d k = Inr t"
  then have "t \<in> set (filter (\<lambda>t. task_pk t = k) (task_table d))"
    by (simp add: Task_objects_get_rows)
  then show ?thesis by simp
qed

lemma filter_pk_update:
  assumes "task_pk t' = k"
  shows "filter (\<lambda>t. task_pk t = j) (map (\<lambda>r. if task_pk r = k then t' else r) rows) =
         map (\<lambda>r. if task_pk r = k then t' else r) (filter (\<lambda>t. task_pk t = j) rows)"
  using assms by (induction rows) auto

lemma task_save_get_same:
  assumes "Task_objects_get d k = Inr t" and "task_pk t' = k"
  shows "Task_objects_get (task_save t' d) k = Inr t'"
proof -
  have rows: "filter (\<lambda>t. task_pk t = k) (task_table d) = [t]"
    using assms(1) by (simp add: Task_objects_get_rows)
  have mem: "t \<in> set (task_table d)" and key: "task_pk t = k"
    using assms(1) by (simp_all add: Task_objects_get_mem Task_objects_get_pk)
  then have present: "task_pk t' \<in> set (map task_pk (task_table d))"
    using assms(2) by force
  have "filter (\<lambda>t. task_pk t = k) (task_table (task_save t' d)) = [t']"
    using present rows assms(2) key by (simp add: task_save_def filter_pk_update)
  then show ?thesis by (simp add: Task_objects_get_rows)
qed

lemma task_save_get_other:
  assumes "Task_objects_get d k = Inr t" and "task_pk t' = k" and "j \<noteq> k"
  shows "Task_objects_get (task_save t' d) j = Task_objects_get d j"
proof -
  have "t \<in> set (task_table d)" and "task_pk t = k"
    using assms(1) by (simp_all add: Task_objects_get_mem Task_objects_get_pk)
  then have present: "task_pk t' \<in> set (map task_pk (task_table d))"
    using assms(2) by force
  have "map (\<lambda>r. if task_pk r = k then t' else r) (filter (\<lambda>t. task_pk t = j) (task_table d)) =
        filter (\<lambda>t. task_pk t = j) (task_table d)"
    using assms(3) by (induction "task_table d") (auto intro: map_idI)
  then have "filter (\<lambda>t. task_pk t = j) (task_table (task_save t' d)) =
        filter (\<lambda>t. task_pk t = j) (task_table d)"
    using present assms(2) by (simp add: task_save_def filter_pk_update)
  then show ?thesis by (simp add: Task_objects_get_def)
qed

lemma distinct_filter_key:
  "distinct (map f xs) \<Longrightarrow> x \<in> set xs \<Longrightarrow> filter (\<lambda>y. f y = f x) xs = [x]"
proof (induction xs)
  case Nil
  then show ?case by simp
next
  case (Cons a xs)
  show ?case
  proof (cases "a = x")
    case True
    have "f x \<notin> f ` set xs" using Cons.prems(1) True by simp
    then have "filter (\<lambda>y. f y = f x) xs = []"
      by (force simp: filter_empty_conv image_iff)
    then show ?thesis using True by simp
  next
    case False
    then have mem: "x \<in> set xs" using Cons.prems(2) by simp
    then have "f a \<noteq> f x" using Cons.prems(1) by force
    then show ?thesis using Cons.IH Cons.prems(1) mem by simp
  qed
qed

lemma Task_objects_get_missing:
  "k \<notin> task_pk ` set (task_table d) \<Longrightarrow> Task_objects_get d k = Inl DoesNotExist"
proof -
  assume "k \<notin> task_pk ` set (task_table d)"
  then have "filter (\<lambda>t. task_pk t = k) (task_table d) = []"
    by (auto simp: filter_empty_conv)
  then show ?thesis by (simp add: Task_objects_get_def)
qed

lemma Task_objects_get_present:
  assumes "distinct (map task_pk (task_table d))" and "t \<in> set (task_table d)"
  shows "Task_objects_get d (task_pk t) = Inr t"
  using distinct_filter_key [OF assms] by (simp add: Task_objects_get_rows)

lemma assignees_all_task_save:
  "task_pk t' = task_pk t \<Longrightarrow> assignees_all (task_save t'' d) t' = assignees_all d t"
  by (simp add: assignees_all_def task_save_def)

lemma task_save_present:
  "task_pk t \<in> set (map task_pk (task_table d)) \<Longrightarrow>
   task_table (task_save t d) = map (\<lambda>r. if task_pk r = task_pk t then t else r) (task_table d)"
  by (simp add: task_save_def)

lemma task_save_twice:
  assumes "Task_objects_get d k = Inr t" and "task_pk t' = k"
  shows "task_save t (task_save t' d) = d"
proof -
  have rows: "filter (\<lambda>r. task_pk r = k) (task_table d) = [t]"
    using assms(1) by (simp add: Task_objects_get_rows)
  have key: "task_pk t = k" using assms(1) by (rule Task_objects_get_pk)
  have mem: "t \<in> set (task_table d)" using assms(1) by (rule Task_objects_get_mem)
  have only: "r = t" if "r \<in> set (task_table d)" and "task_pk r = k" for r
  proof -
    from that have "r \<in> set (filter (\<lambda>r. task_pk r = k) (task_table d))" by simp
    then show ?thesis by (simp add: rows)
  qed
  have present: "k \<in> set (map task_pk (task_table d))" using mem key by force
  have first: "task_table (task_save t' d) = map (\<lambda>r. if task_pk r = k then t' else r) (task_table d)"
    using present assms(2) by (simp add: task_save_def)
  have "map task_pk (task_table (task_save t' d)) = map task_pk (task_table d)"
    unfolding first by (auto simp: assms(2))
  then have present': "k \<in> set (map task_pk (task_table (task_save t' d)))"
    using present by simp
  have "task_table (task_save t (task_save t' d)) =
        map (\<lambda>r. if task_pk r = k then t else r) (task_table (task_save t' d))"
    using task_save_present [of t "task_save t' d"] present' key by simp
  also have "\<dots> =
        map (\<lambda>r. if task_pk r = k then t else r) (map (\<lambda>r. if task_pk r = k then t' else r) (task_table d))"
    by (simp only: first)
  also have "\<dots> = map (\<lambda>r. r) (task_table d)"
    unfolding map_map using only by (intro map_cong) (auto simp: assms(2))
  finally have "task_table (task_save t (task_save t' d)) = task_table d" by simp
  then show ?thesis by (simp add: task_save_def)
qed

lemma TaskListView_get_queryset_filter:
  assumes "uri_project_id request = Inr s" and "py_int s = Some P"
  shows "TaskListView_get_queryset request today d =
         Inr (filter (\<lambda>t. task_project_id t = P
                \<and> (''past_dl'' \<in> set (GET_filters request) \<longrightarrow> deadline t < today)
                \<and> (''urgent'' \<in> set (GET_filters request) \<longrightarrow> priority t = ''Urgent'')
                \<and> (is_completed t \<longleftrightarrow> ''done'' \<in> set (GET_filters request)))
              (task_table d))"
  using assms
  by (auto simp: TaskListView_get_queryset_def Let_def intro!: filter_cong)

lemma startswith_prefix: "startswith s p \<longleftrightarrow> prefix p s"
  by (induction s p rule: startswith.induct) auto

lemma contains_sublist: "contains s v \<longleftrightarrow> sublist v s"
  by (induction s) (auto simp: startswith_prefix sublist_Cons_right)

lemma icontains_sublist: "icontains field v \<longleftrightarrow> sublist (map lower v) (map lower field)"
  by (simp add: icontains_def contains_sublist)

lemma TaskUpdateView_get_other_project:
  assumes "get_object d k = Inr obj" and "req_user request = Some w"
    and "task_project_id obj \<noteq> worker_project_id w"
  shows "TaskUpdateView_get request k d = (Inr (HttpResponse ''Unauthorized'' 405), d)"
  using assms by (simp add: TaskUpdateView_get_def user_project_def)

lemma TaskDeleteView_get_other_project:
  assumes "get_object d k = Inr obj" and "req_user request = Some w"
    and "task_project_id obj \<noteq> worker_project_id w"
  shows "TaskDeleteView_get request k d = (Inr (HttpResponse ''Unauthorized'' 405), d)"
  using assms by (simp add: TaskDeleteView_get_def user_project_def)

section \<open>Facts about the example data\<close>

lemmas example_defs = today0_def task_T1_def task_T2_def task_T3_def ana_smith_def
  juliana_ruiz_def bob_lee_def store0_def request0_def

lemma uri_project_1:
  "uri_project_id (request0 m u (''http://testserver/projects/1/tasks/'' @ q) fs n) = Inr ''1''"
  by (simp add: uri_project_id_def request0_def split: list.splits)

lemma py_int_1: "py_int ''1'' = Some 1"
  by (simp add: py_int_def digit_of_def)

section \<open>Updating and deleting a task of another project\<close>

text \<open>
  Claim C1 says that every update or delete request on a task of another project is
  answered with status 405 and body \<open>Unauthorized\<close> and leaves the store as it was.
  The views check the project in \<^verbatim>\<open>get\<close> only. Evaluated on \<open>store0\<close>: Ana Smith
  (project 1) sends a POST request to delete \<open>task_T3\<close> (project 2); the answer is a
  redirect to the task list of project 2, and the task and its row of the through table
  are gone.
\<close>

theorem TaskDeleteView_post_other_project:
  "Task_objects_get store0 3 = Inr task_T3
   \<and> task_project_id task_T3 \<noteq> worker_project_id ana_smith
   \<and> TaskDeleteView_dispatch
        (request0 POST (Some ana_smith) ''http://testserver/tasks/3/delete/'' [] None) 3 store0 =
       (Inr (HttpResponseRedirect (Reverse ''core:task-list'' [2])),
        store0\<lparr>task_table := [task_T1, task_T2], task_assignees := [(1, 1), (2, 2)]\<rparr>)
   \<and> Task_objects_get
        (snd (TaskDeleteView_dispatch
           (request0 POST (Some ana_smith) ''http://testserver/tasks/3/delete/'' [] None) 3 store0)) 3 =
       Inl DoesNotExist"
proof -
  have h1: "Task_objects_get store0 3 = Inr task_T3"
    by (simp add: Task_objects_get_def example_defs)
  have h2: "task_project_id task_T3 \<noteq> worker_project_id ana_smith"
    by (simp add: example_defs)
  have run: "TaskDeleteView_dispatch
        (request0 POST (Some ana_smith) ''http://testserver/tasks/3/delete/'' [] None) 3 store0 =
       (Inr (HttpResponseRedirect (Reverse ''core:task-list'' [2])),
        store0\<lparr>task_table := [task_T1, task_T2], task_assignees := [(1, 1), (2, 2)]\<rparr>)"
    by (simp add: TaskDeleteView_dispatch_def TaskDeleteView_post_def get_object_def
          Task_objects_get_def task_delete_def example_defs)
  have gone: "Task_objects_get (store0\<lparr>task_table := [task_T1, task_T2], task_assignees := [(1, 1), (2, 2)]\<rparr>) 3 =
       Inl DoesNotExist"
    by (simp add: Task_objects_get_def example_defs)
  show ?thesis using h1 h2 run gone by simp
qed

section \<open>The completion toggle: claims\<close>

text \<open>
  Claim C2: when the acting user is not among the current assignees of the task, the
  completion toggle answers with status 405 and body \<open>Unauthorized\<close>, and the store,
  so also the task and its completion flag, is unchanged.
\<close>

theorem toggle_completed_non_assignee:
  assumes "Task_objects_get d k = Inr t"
    and "\<not> user_in (req_user request) (assignees_all d t)"
  shows "toggle_completed request k d = (Inr (HttpResponse ''Unauthorized'' 405), d)
         \<and> status_code (HttpResponse ''Unauthorized'' 405) = 405
         \<and> Task_objects_get (snd (toggle_completed request k d)) k = Inr t"
  using assms by (simp add: toggle_completed_def)

theorem toggle_completed_non_assignee_witness:
  "Task_objects_get store0 1 = Inr task_T1
   \<and> \<not> user_in (req_user (request0 POST (Some bob_lee) ''http://testserver/tasks/1/toggle/'' [] None))
          (assignees_all store0 task_T1)
   \<and> toggle_completed (request0 POST (Some bob_lee) ''http://testserver/tasks/1/toggle/'' [] None) 1 store0 =
       (Inr (HttpResponse ''Unauthorized'' 405), store0)"
proof -
  have h1: "Task_objects_get store0 1 = Inr task_T1"
    by (simp add: Task_objects_get_def example_defs)
  have h2: "\<not> user_in (req_user (request0 POST (Some bob_lee) ''http://testserver/tasks/1/toggle/'' [] None))
          (assignees_all store0 task_T1)"
    by (simp add: user_in_def assignees_all_def example_defs)
  show ?thesis
    using toggle_completed_non_assignee [OF h1 h2] h1 h2 by simp
qed

text \<open>
  Claim C3: when the acting worker is among the current assignees of the task, one call
  of the completion toggle answers with a redirect (status 302) to the detail page of the
  task, and the stored task is the old one with the completion flag negated; every other
  task, the workers and the assignments are as before.
\<close>

theorem toggle_completed_assignee:
  assumes "Task_objects_get d k = Inr t"
    and "user_in (req_user request) (assignees_all d t)"
  shows "fst (toggle_completed request k d) =
           Inr (HttpResponseRedirect (Reverse ''core:task-detail'' [k]))
         \<and> status_code (HttpResponseRedirect (Reverse ''core:task-detail'' [k])) = 302
         \<and> Task_objects_get (snd (toggle_completed request k d)) k =
             Inr (t\<lparr>is_completed := \<not> is_completed t\<rparr>)
         \<and> (\<forall>j. j \<noteq> k \<longrightarrow>
               Task_objects_get (snd (toggle_completed request k d)) j = Task_objects_get d j)
         \<and> worker_table (snd (toggle_completed request k d)) = worker_table d
         \<and> task_assignees (snd (toggle_completed request k d)) = task_assignees d"
proof -
  let ?t' = "t\<lparr>is_completed := \<not> is_completed t\<rparr>"
  have key: "task_pk ?t' = k" using assms(1) by (simp add: Task_objects_get_pk)
  have run: "toggle_completed request k d =
      (Inr (HttpResponseRedirect (Reverse ''core:task-detail'' [k])), task_save ?t' d)"
    using assms by (simp add: toggle_completed_def)
  have same: "Task_objects_get (task_save ?t' d) k = Inr ?t'"
    using assms(1) key by (rule task_save_get_same)
  have other: "\<forall>j. j \<noteq> k \<longrightarrow> Task_objects_get (task_save ?t' d) j = Task_objects_get d j"
    using task_save_get_other [OF assms(1) key] by blast
  show ?thesis using same other by (simp add: run task_save_def)
qed

theorem toggle_completed_assignee_witness:
  "Task_objects_get store0 1 = Inr task_T1
   \<and> user_in (req_user (request0 POST (Some ana_smith) ''http://testserver/tasks/1/toggle/'' [] None))
          (assignees_all store0 task_T1)
   \<and> fst (toggle_completed (request0 POST (Some ana_smith) ''http://testserver/tasks/1/toggle/'' [] None) 1 store0) =
       Inr (HttpResponseRedirect (Reverse ''core:task-detail'' [1]))
   \<and> Task_objects_get
        (snd (toggle_completed (request0 POST (Some ana_smith) ''http://testserver/tasks/1/toggle/'' [] None) 1 store0)) 1 =
       Inr (task_T1\<lparr>is_completed := True\<rparr>)"
proof -
  have h1: "Task_objects_get store0 1 = Inr task_T1"
    by (simp add: Task_objects_get_def example_defs)
  have h2: "user_in (req_user (request0 POST (Some ana_smith) ''http://testserver/tasks/1/toggle/'' [] None))
          (assignees_all store0 task_T1)"
    by (simp add: user_in_def assignees_all_def example_defs)
  have h3: "\<not> is_completed task_T1" by (simp add: task_T1_def)
  show ?thesis
    using toggle_completed_assignee [OF h1 h2] h1 h2 h3 by simp
qed

text \<open>
  Claim C8: for a key that no stored task has, the completion toggle raises
  \<^verbatim>\<open>DoesNotExist\<close> instead of returning a response, and the store is unchanged; for a
  key of a stored task, keys being unique, the lookup returns that task and the toggle
  returns a response.
\<close>

theorem toggle_completed_lookup:
  "(k \<notin> task_pk ` set (task_table d) \<longrightarrow>
      toggle_completed request k d = (Inl DoesNotExist, d))
   \<and> (k \<in> task_pk ` set (task_table d) \<and> pk_unique d \<longrightarrow>
        (\<exists>t. t \<in> set (task_table d) \<and> task_pk t = k \<and> Task_objects_get d k = Inr t)
        \<and> (\<exists>r. fst (toggle_completed request k d) = Inr r))"
proof (intro conjI impI)
  assume "k \<notin> task_pk ` set (task_table d)"
  then show "toggle_completed request k d = (Inl DoesNotExist, d)"
    by (simp add: toggle_completed_def Task_objects_get_missing)
next
  assume a: "k \<in> task_pk ` set (task_table d) \<and> pk_unique d"
  then obtain t where t: "t \<in> set (task_table d)" "task_pk t = k" by auto
  have "distinct (map task_pk (task_table d))" using a by (simp add: pk_unique_def)
  then have get: "Task_objects_get d k = Inr t"
    using Task_objects_get_present t by blast
  show "\<exists>t. t \<in> set (task_table d) \<and> task_pk t = k \<and> Task_objects_get d k = Inr t"
    using t get by blast
  show "\<exists>r. fst (toggle_completed request k d) = Inr r"
    using get by (simp add: toggle_completed_def)
qed

theorem toggle_completed_lookup_witness:
  "7 \<notin> task_pk ` set (task_table store0)
   \<and> toggle_completed (request0 POST (Some ana_smith) ''http://testserver/tasks/7/toggle/'' [] None) 7 store0 =
       (Inl DoesNotExist, store0)
   \<and> 2 \<in> task_pk ` set (task_table store0) \<and> pk_unique store0
   \<and> Task_objects_get store0 2 = Inr task_T2
   \<and> (\<exists>r. fst (toggle_completed (request0 POST (Some ana_smith) ''http://testserver/tasks/2/toggle/'' [] None) 2 store0) = Inr r)"
proof -
  have h1: "7 \<notin> task_pk ` set (task_table store0)"
    by (simp add: example_defs)
  have h2: "2 \<in> task_pk ` set (task_table store0) \<and> pk_unique store0"
    by (simp add: pk_unique_def example_defs)
  have h3: "Task_objects_get store0 2 = Inr task_T2"
    by (simp add: Task_objects_get_def example_defs)
  show ?thesis
    using toggle_completed_lookup [of 7 store0 "request0 POST (Some ana_smith) ''http://testserver/tasks/7/toggle/'' [] None"]
      toggle_completed_lookup [of 2 store0 "request0 POST (Some ana_smith) ''http://testserver/tasks/2/toggle/'' [] None"]
      h1 h2 h3
    by blast
qed

text \<open>
  Claim C9: when the acting worker is among the assignees of the task, two calls of the
  completion toggle in a row, the second on the store the first one leaves, both answer
  with the redirect and leave the store, so also the completion flag, as it was at the
  start.
\<close>

theorem toggle_completed_twice:
  assumes "Task_objects_get d k = Inr t"
    and "user_in (req_user request) (assignees_all d t)"
  shows "Task_objects_get (snd (toggle_completed request k d)) k =
           Inr (t\<lparr>is_completed := \<not> is_completed t\<rparr>)
         \<and> toggle_completed request k (snd (toggle_completed request k d)) =
             (Inr (HttpResponseRedirect (Reverse ''core:task-detail'' [k])), d)
         \<and> Task_objects_get (snd (toggle_completed request k (snd (toggle_completed request k d)))) k =
             Inr t"
proof -
  let ?t' = "t\<lparr>is_completed := \<not> is_completed t\<rparr>"
  have key: "task_pk ?t' = k" using assms(1) by (simp add: Task_objects_get_pk)
  have run: "toggle_completed request k d =
      (Inr (HttpResponseRedirect (Reverse ''core:task-detail'' [k])), task_save ?t' d)"
    using assms by (simp add: toggle_completed_def)
  have same: "Task_objects_get (task_save ?t' d) k = Inr ?t'"
    using assms(1) key by (rule task_save_get_same)
  have still: "user_in (req_user request) (assignees_all (task_save ?t' d) ?t')"
    using assms(2) by (simp add: assignees_all_task_save)
  have flip: "?t'\<lparr>is_completed := \<not> is_completed ?t'\<rparr> = t" by simp
  have again: "toggle_completed request k (task_save ?t' d) =
      (Inr (HttpResponseRedirect (Reverse ''core:task-detail'' [k])), task_save t (task_save ?t' d))"
    using same still unfolding toggle_completed_def by (simp add: flip del: task.simps)
  have "task_save t (task_save ?t' d) = d"
    using assms(1) key by (rule task_save_twice)
  then show ?thesis using same again assms(1) by (simp add: run)
qed

theorem toggle_completed_twice_witness:
  "Task_objects_get store0 1 = Inr task_T1
   \<and> user_in (req_user (request0 POST (Some ana_smith) ''http://testserver/tasks/1/toggle/'' [] None))
          (assignees_all store0 task_T1)
   \<and> toggle_completed (request0 POST (Some ana_smith) ''http://testserver/tasks/1/toggle/'' [] None) 1
        (snd (toggle_completed (request0 POST (Some ana_smith) ''http://testserver/tasks/1/toggle/'' [] None) 1 store0)) =
       (Inr (HttpResponseRedirect (Reverse ''core:task-detail'' [1])), store0)"
proof -
  have h1: "Task_objects_get store0 1 = Inr task_T1"
    by (simp add: Task_objects_get_def example_defs)
  have h2: "user_in (req_user (request0 POST (Some ana_smith) ''http://testserver/tasks/1/toggle/'' [] None))
          (assignees_all store0 task_T1)"
    by (simp add: user_in_def assignees_all_def example_defs)
  show ?thesis
    using toggle_completed_twice [OF h1 h2] h1 h2 by simp
qed

section \<open>The task listing: claims\<close>

text \<open>
  Claim C4: for a request whose address names the project \<open>P\<close>, whatever the filter
  flags, the task listing returns a list, and every task in it is a stored task whose
  project is \<open>P\<close>.
\<close>

theorem TaskListView_project_only:
  assumes "uri_project_id request = Inr s" and "py_int s = Some P"
  shows "\<exists>ts. TaskListView_get_queryset request today d = Inr ts
           \<and> (\<forall>t \<in> set ts. task_project_id t = P \<and> t \<in> set (task_table d))"
  by (simp add: TaskListView_get_queryset_filter [OF assms])

theorem TaskListView_project_only_witness:
  "uri_project_id (request0 GET (Some ana_smith) ''http://testserver/projects/1/tasks/'' [] None) = Inr ''1''
   \<and> py_int ''1'' = Some 1
   \<and> TaskListView_get_queryset (request0 GET (Some ana_smith) ''http://testserver/projects/1/tasks/'' [] None)
        today0 store0 = Inr [task_T1]
   \<and> task_project_id task_T1 = 1"
proof -
  have h1: "uri_project_id (request0 GET (Some ana_smith) ''http://testserver/projects/1/tasks/'' [] None) = Inr ''1''"
    using uri_project_1 [of GET "Some ana_smith" "[]" "[]" None] by simp
  have run: "TaskListView_get_queryset (request0 GET (Some ana_smith) ''http://testserver/projects/1/tasks/'' [] None)
        today0 store0 = Inr [task_T1]"
    by (simp add: TaskListView_get_queryset_def h1 py_int_1) (simp add: example_defs)
  show ?thesis
    using TaskListView_project_only [OF h1 py_int_1, of today0 store0] h1 py_int_1 run by auto
qed

text \<open>
  Claim C5: for a project \<open>P\<close>, the listing with the single filter \<open>done\<close> is the
  tasks of \<open>P\<close> whose completion flag is true, the listing with no filter is the tasks
  of \<open>P\<close> whose completion flag is false, and every task of \<open>P\<close> is in exactly one of
  the two.
\<close>

theorem TaskListView_done_partition:
  assumes "uri_project_id r1 = Inr s1" and "py_int s1 = Some P" and "GET_filters r1 = [''done'']"
    and "uri_project_id r2 = Inr s2" and "py_int s2 = Some P" and "GET_filters r2 = []"
  shows "TaskListView_get_queryset r1 today d =
           Inr (filter (\<lambda>t. task_project_id t = P \<and> is_completed t) (task_table d))
         \<and> TaskListView_get_queryset r2 today d =
           Inr (filter (\<lambda>t. task_project_id t = P \<and> \<not> is_completed t) (task_table d))
         \<and> (\<forall>t \<in> set (task_table d). task_project_id t = P \<longrightarrow>
              (t \<in> set (filter (\<lambda>t. task_project_id t = P \<and> is_completed t) (task_table d)))
              \<noteq> (t \<in> set (filter (\<lambda>t. task_project_id t = P \<and> \<not> is_completed t) (task_table d))))"
proof -
  have a: "TaskListView_get_queryset r1 today d =
           Inr (filter (\<lambda>t. task_project_id t = P \<and> is_completed t) (task_table d))"
    using assms(3) by (simp add: TaskListView_get_queryset_filter [OF assms(1,2)])
  have b: "TaskListView_get_queryset r2 today d =
           Inr (filter (\<lambda>t. task_project_id t = P \<and> \<not> is_completed t) (task_table d))"
    using assms(6) by (simp add: TaskListView_get_queryset_filter [OF assms(4,5)])
  show ?thesis using a b by auto
qed

theorem TaskListView_done_partition_witness:
  "uri_project_id (request0 GET (Some ana_smith) ''http://testserver/projects/1/tasks/?filters=done'' [''done''] None) = Inr ''1''
   \<and> uri_project_id (request0 GET (Some ana_smith) ''http://testserver/projects/1/tasks/'' [] None) = Inr ''1''
   \<and> py_int ''1'' = Some 1
   \<and> TaskListView_get_queryset
        (request0 GET (Some ana_smith) ''http://testserver/projects/1/tasks/?filters=done'' [''done''] None)
        today0 store0 = Inr [task_T2]
   \<and> TaskListView_get_queryset
        (request0 GET (Some ana_smith) ''http://testserver/projects/1/tasks/'' [] None)
        today0 store0 = Inr [task_T1]"
proof -
  have h1: "uri_project_id (request0 GET (Some ana_smith) ''http://testserver/projects/1/tasks/?filters=done'' [''done''] None) = Inr ''1''"
    using uri_project_1 [of GET "Some ana_smith" "''?filters=done''" "[''done'']" None] by simp
  have h2: "uri_project_id (request0 GET (Some ana_smith) ''http://testserver/projects/1/tasks/'' [] None) = Inr ''1''"
    using uri_project_1 [of GET "Some ana_smith" "[]" "[]" None] by simp
  have f1: "GET_filters (request0 GET (Some ana_smith) ''http://testserver/projects/1/tasks/?filters=done'' [''done''] None) = [''done'']"
    by (simp add: request0_def)
  have f2: "GET_filters (request0 GET (Some ana_smith) ''http://testserver/projects/1/tasks/'' [] None) = []"
    by (simp add: request0_def)
  have done_rows: "filter (\<lambda>t. task_project_id t = 1 \<and> is_completed t) (task_table store0) = [task_T2]"
    by (simp add: example_defs)
  have open_rows: "filter (\<lambda>t. task_project_id t = 1 \<and> \<not> is_completed t) (task_table store0) = [task_T1]"
    by (simp add: example_defs)
  show ?thesis
    using TaskListView_done_partition [OF h1 py_int_1 f1 h2 py_int_1 f2, of today0 store0]
      h1 h2 py_int_1 done_rows open_rows by simp
qed

text \<open>
  Claim C6: the task listing of project \<open>P\<close> is the tasks of \<open>P\<close> that pass every
  selected filter: deadline strictly before today for \<open>past_dl\<close>, priority \<open>Urgent\<close>
  for \<open>urgent\<close>, and completion flag true exactly when \<open>done\<close> is selected. In
  particular, when the tasks of \<open>P\<close> are \<open>T1\<close> (not done, urgent, due yesterday) and
  \<open>T2\<close> (done), the filters \<open>past_dl\<close> and \<open>urgent\<close> give \<open>T1\<close>, the filter \<open>done\<close>
  gives \<open>T2\<close>, and no filter gives \<open>T1\<close>.
\<close>

theorem TaskListView_filters:
  assumes "uri_project_id request = Inr s" and "py_int s = Some P"
  shows "TaskListView_get_queryset request today d =
           Inr (filter (\<lambda>t. task_project_id t = P
                  \<and> (''past_dl'' \<in> set (GET_filters request) \<longrightarrow> deadline t < today)
                  \<and> (''urgent'' \<in> set (GET_filters request) \<longrightarrow> priority t = ''Urgent'')
                  \<and> (is_completed t \<longleftrightarrow> ''done'' \<in> set (GET_filters request)))
                (task_table d))
         \<and> (filter (\<lambda>t. task_project_id t = P) (task_table d) = [T1, T2]
              \<and> \<not> is_completed T1 \<and> priority T1 = ''Urgent'' \<and> deadline T1 = today - 1
              \<and> is_completed T2 \<longrightarrow>
              (GET_filters request = [''past_dl'', ''urgent''] \<longrightarrow>
                 TaskListView_get_queryset request today d = Inr [T1])
              \<and> (GET_filters request = [''done''] \<longrightarrow>
                 TaskListView_get_queryset request today d = Inr [T2])
              \<and> (GET_filters request = [] \<longrightarrow>
                 TaskListView_get_queryset request today d = Inr [T1]))"
proof (intro conjI impI)
  show "TaskListView_get_queryset request today d =
           Inr (filter (\<lambda>t. task_project_id t = P
                  \<and> (''past_dl'' \<in> set (GET_filters request) \<longrightarrow> deadline t < today)
                  \<and> (''urgent'' \<in> set (GET_filters request) \<longrightarrow> priority t = ''Urgent'')
                  \<and> (is_completed t \<longleftrightarrow> ''done'' \<in> set (GET_filters request)))
                (task_table d))"
    using assms by (rule TaskListView_get_queryset_filter)
next
  assume sc: "filter (\<lambda>t. task_project_id t = P) (task_table d) = [T1, T2]
              \<and> \<not> is_completed T1 \<and> priority T1 = ''Urgent'' \<and> deadline T1 = today - 1
              \<and> is_completed T2"
  have split: "filter (\<lambda>t. task_project_id t = P \<and> Q t) (task_table d) = filter Q [T1, T2]" for Q
  proof -
    have "filter (\<lambda>t. task_project_id t = P \<and> Q t) (task_table d) =
          filter Q (filter (\<lambda>t. task_project_id t = P) (task_table d))"
      by (simp add: conj_commute)
    then show ?thesis using sc by simp
  qed
  {
    assume "GET_filters request = [''past_dl'', ''urgent'']"
    then show "TaskListView_get_queryset request today d = Inr [T1]"
      using sc by (simp add: TaskListView_get_queryset_filter [OF assms] split)
  }
  {
    assume "GET_filters request = [''done'']"
    then show "TaskListView_get_queryset request today d = Inr [T2]"
      using sc by (simp add: TaskListView_get_queryset_filter [OF assms] split)
  }
  {
    assume "GET_filters request = []"
    then show "TaskListView_get_queryset request today d = Inr [T1]"
      using sc by (simp add: TaskListView_get_queryset_filter [OF assms] split)
  }
qed

theorem TaskListView_filters_witness:
  "uri_project_id (request0 GET (Some ana_smith)
       ''http://testserver/projects/1/tasks/?filters=past_dl&filters=urgent'' [''past_dl'', ''urgent''] None) = Inr ''1''
   \<and> uri_project_id (request0 GET (Some ana_smith)
       ''http://testserver/projects/1/tasks/?filters=done'' [''done''] None) = Inr ''1''
   \<and> uri_project_id (request0 GET (Some ana_smith)
       ''http://testserver/projects/1/tasks/'' [] None) = Inr ''1''
   \<and> py_int ''1'' = Some 1
   \<and> filter (\<lambda>t. task_project_id t = 1) (task_table store0) = [task_T1, task_T2]
   \<and> \<not> is_completed task_T1 \<and> priority task_T1 = ''Urgent'' \<and> deadline task_T1 = today0 - 1
   \<and> is_completed task_T2
   \<and> TaskListView_get_queryset (request0 GET (Some ana_smith)
       ''http://testserver/projects/1/tasks/?filters=past_dl&filters=urgent'' [''past_dl'', ''urgent''] None)
       today0 store0 = Inr [task_T1]
   \<and> TaskListView_get_queryset (request0 GET (Some ana_smith)
       ''http://testserver/projects/1/tasks/?filters=done'' [''done''] None)
       today0 store0 = Inr [task_T2]
   \<and> TaskListView_get_queryset (request0 GET (Some ana_smith)
       ''http://testserver/projects/1/tasks/'' [] None)
       today0 store0 = Inr [task_T1]"
proof -
  let ?r1 = "request0 GET (Some ana_smith)
       ''http://testserver/projects/1/tasks/?filters=past_dl&filters=urgent'' [''past_dl'', ''urgent''] None"
  let ?r2 = "request0 GET (Some ana_smith)
       ''http://testserver/projects/1/tasks/?filters=done'' [''done''] None"
  let ?r3 = "request0 GET (Some ana_smith) ''http://testserver/projects/1/tasks/'' [] None"
  have h1: "uri_project_id ?r1 = Inr ''1''"
    using uri_project_1 [of GET "Some ana_smith" "''?filters=past_dl&filters=urgent''" "[''past_dl'', ''urgent'']" None]
    by simp
  have h2: "uri_project_id ?r2 = Inr ''1''"
    using uri_project_1 [of GET "Some ana_smith" "''?filters=done''" "[''done'']" None] by simp
  have h3: "uri_project_id ?r3 = Inr ''1''"
    using uri_project_1 [of GET "Some ana_smith" "[]" "[]" None] by simp
  have f1: "GET_filters ?r1 = [''past_dl'', ''urgent'']"
    and f2: "GET_filters ?r2 = [''done'']"
    and f3: "GET_filters ?r3 = []"
    by (simp_all add: request0_def)
  have sc: "filter (\<lambda>t. task_project_id t = 1) (task_table store0) = [task_T1, task_T2]
     \<and> \<not> is_completed task_T1 \<and> priority task_T1 = ''Urgent'' \<and> deadline task_T1 = today0 - 1
     \<and> is_completed task_T2"
    by (simp add: example_defs)
  show ?thesis
    using TaskListView_filters [OF h1 py_int_1, of today0 store0 task_T1 task_T2]
      TaskListView_filters [OF h2 py_int_1, of today0 store0 task_T1 task_T2]
      TaskListView_filters [OF h3 py_int_1, of today0 store0 task_T1 task_T2]
      h1 h2 h3 py_int_1 f1 f2 f3 sc
    by blast
qed

section \<open>The worker listing: claims\<close>

text \<open>
  Claim C7: for a search string that is not empty, the worker listing is the workers
  whose first name or last name, letters compared without regard to case, has the search
  string as a run of consecutive characters (\<^const>\<open>sublist\<close>).
\<close>

theorem WorkerListView_search:
  assumes "GET_name request = Some s" and "s \<noteq> []"
  shows "WorkerListView_get_queryset request d =
         filter (\<lambda>w. sublist (map lower s) (map lower (first_name w))
                   \<or> sublist (map lower s) (map lower (last_name w)))
           (worker_table d)"
  using assms by (simp add: WorkerListView_get_queryset_def icontains_sublist)

theorem WorkerListView_search_witness:
  "GET_name (request0 GET (Some bob_lee) ''http://testserver/workers/?name=ana'' [] (Some ''ana'')) = Some ''ana''
   \<and> ''ana'' \<noteq> []
   \<and> filter (\<lambda>w. sublist (map lower ''ana'') (map lower (first_name w))
                \<or> sublist (map lower ''ana'') (map lower (last_name w)))
        (worker_table store0) = [ana_smith, juliana_ruiz]
   \<and> bob_lee \<in> set (worker_table store0)"
proof -
  have h1: "GET_name (request0 GET (Some bob_lee) ''http://testserver/workers/?name=ana'' [] (Some ''ana'')) = Some ''ana''"
    by (simp add: request0_def)
  have h2: "''ana'' \<noteq> []" by simp
  have run: "WorkerListView_get_queryset
       (request0 GET (Some bob_lee) ''http://testserver/workers/?name=ana'' [] (Some ''ana'')) store0 =
       [ana_smith, juliana_ruiz]"
    by code_simp
  have mem: "bob_lee \<in> set (worker_table store0)" by (simp add: store0_def)
  show ?thesis
    using WorkerListView_search [OF h1 h2, of store0] h1 run mem by simp
qed

text \<open>
  Claim C10: when the search parameter is absent or is the empty string, the worker
  listing is the whole worker table; and the number of workers put into the context is
  the length of the worker table, whatever the search parameter is.
\<close>

theorem WorkerListView_no_search:
  "(GET_name request = None \<or> GET_name request = Some [] \<longrightarrow>
      WorkerListView_get_queryset request d = worker_table d)
   \<and> num_workers request d = length (worker_table d)"
  by (auto simp: WorkerListView_get_queryset_def num_workers_def)

theorem WorkerListView_no_search_witness:
  "WorkerListView_get_queryset (request0 GET (Some bob_lee) ''http://testserver/workers/'' [] None) store0 =
     [ana_smith, juliana_ruiz, bob_lee]
   \<and> WorkerListView_get_queryset (request0 GET (Some bob_lee) ''http://testserver/workers/?name='' [] (Some [])) store0 =
     [ana_smith, juliana_ruiz, bob_lee]
   \<and> num_workers (request0 GET (Some bob_lee) ''http://testserver/workers/?name=ana'' [] (Some ''ana'')) store0 = 3"
  using WorkerListView_no_search [of "request0 GET (Some bob_lee) ''http://testserver/workers/'' [] None" store0]
    WorkerListView_no_search [of "request0 GET (Some bob_lee) ''http://testserver/workers/?name='' [] (Some [])" store0]
    WorkerListView_no_search [of "request0 GET (Some bob_lee) ''http://testserver/workers/?name=ana'' [] (Some ''ana'')" store0]
  by (simp add: request0_def store0_def)

end
